theory Spec2Isabelle
  imports Complex_Main
begin

section \<open>JavaScript values as the client code sees them\<close>

text \<open>
  The React client reads the JSON bodies of the backend's answers and only ever
  looks fields up, tests them for truthiness and copies them. A value is what
  \<open>JSON.parse\<close> can give back, plus \<open>undefined\<close> for a missing field. A number
  is a finite double, kept as the rational that is its exact value (the two zeros are
  one value).
\<close>

datatype jsval =
    Undefined
  | Null
  | Bool bool
  | Num rat
  | Str string
  | Arr "jsval list"
  | Obj "(string \<times> jsval) list"

text \<open>JavaScript truthiness (\<open>Boolean(v)\<close>, \<open>if (v)\<close>, \<open>v && w\<close>, \<open>v || w\<close>).\<close>

fun truthy :: "jsval \<Rightarrow> bool" where
  "truthy Undefined = False"
| "truthy Null = False"
| "truthy (Bool b) = b"
| "truthy (Num r) = (r \<noteq> 0)"
| "truthy (Str s) = (s \<noteq> [])"
| "truthy (Arr _) = True"
| "truthy (Obj _) = True"

text \<open>
  Property access \<open>v.k\<close>: a TypeError on \<open>null\<close> and \<open>undefined\<close> (\<open>None\<close>), the
  field of an object, and \<open>undefined\<close> for a missing field and for the field names read
  here on a primitive or an array.
\<close>

fun get_prop :: "jsval \<Rightarrow> string \<Rightarrow> jsval option" where
  "get_prop Undefined k = None"
| "get_prop Null k = None"
| "get_prop (Obj kvs) k = (case map_of kvs k of None \<Rightarrow> Some Undefined | Some v \<Rightarrow> Some v)"
| "get_prop v k = Some Undefined"

text \<open>Optional chaining \<open>v?.k\<close>: \<open>undefined\<close> where \<open>v.k\<close> would throw.\<close>

definition opt_prop :: "jsval \<Rightarrow> string \<Rightarrow> jsval" where
  "opt_prop v k = (case get_prop v k of None \<Rightarrow> Undefined | Some w \<Rightarrow> w)"

text \<open>\<open>a || b\<close> on values.\<close>

definition js_or :: "jsval \<Rightarrow> jsval \<Rightarrow> jsval" where
  "js_or a b = (if truthy a then a else b)"

text \<open>
  \<open>String(v)\<close>, the message \<open>new Error(v)\<close> gets. The decimal text of a number is
  the engine's business: \<open>nf\<close> stands for \<open>Number.prototype.toString\<close>.
\<close>

fun join_comma :: "string list \<Rightarrow> string" where
  "join_comma [] = []"
| "join_comma [s] = s"
| "join_comma (s # t # ss) = s @ '','' @ join_comma (t # ss)"

fun to_string :: "(rat \<Rightarrow> string) \<Rightarrow> jsval \<Rightarrow> string" where
  "to_string nf Undefined = ''undefined''"
| "to_string nf Null = ''null''"
| "to_string nf (Bool b) = (if b then ''true'' else ''false'')"
| "to_string nf (Num r) = nf r"
| "to_string nf (Str s) = s"
| "to_string nf (Arr vs) =
     join_comma (map (\<lambda>v. if v = Undefined \<or> v = Null then [] else to_string nf v) vs)"
| "to_string nf (Obj kvs) = ''[object Object]''"

text \<open>\<open>s.includes(sub)\<close> on strings.\<close>

fun str_includes :: "string \<Rightarrow> string \<Rightarrow> bool" where
  "str_includes [] sub = (sub = [])"
| "str_includes (c # cs) sub = (take (length sub) (c # cs) = sub \<or> str_includes cs sub)"

text \<open>
  What \<open>JSON.parse(JSON.stringify(v))\<close> gives back: in an object the fields whose
  value is \<open>undefined\<close> are left out, in an array \<open>undefined\<close> becomes \<open>null\<close>.
\<close>

fun json_roundtrip :: "jsval \<Rightarrow> jsval" where
  "json_roundtrip (Arr vs) =
     Arr (map (\<lambda>v. if v = Undefined then Null else json_roundtrip v) vs)"
| "json_roundtrip (Obj kvs) =
     Obj (map (\<lambda>(k, v). (k, json_roundtrip v)) (filter (\<lambda>(k, v). v \<noteq> Undefined) kvs))"
| "json_roundtrip v = v"

text \<open>The values that \<open>JSON.parse\<close> itself returns have no \<open>undefined\<close> inside.\<close>

fun json_value :: "jsval \<Rightarrow> bool" where
  "json_value Undefined = False"
| "json_value (Arr vs) = list_all json_value vs"
| "json_value (Obj kvs) = list_all (\<lambda>(k, v). json_value v) kvs"
| "json_value v = True"

section \<open>Numbers\<close>

text \<open>
  The result of arithmetic on doubles: a finite double (its exact value), an infinity
  or NaN.
\<close>

datatype js_number = NaN | Finite rat | PlusInfinity | MinusInfinity

text \<open>The number of binary digits of a natural number.\<close>

fun bit_length :: "nat \<Rightarrow> nat" where
  "bit_length 0 = 0"
| "bit_length (Suc n) = Suc (bit_length (Suc n div 2))"

definition pow2 :: "int \<Rightarrow> rat" where
  "pow2 e = (if 0 \<le> e then 2 ^ nat e else 1 / 2 ^ nat (- e))"

text \<open>For \<open>x > 0\<close>, the exponent \<open>e\<close> with \<open>2^e \<le> x < 2^(e+1)\<close>.\<close>

definition binade :: "rat \<Rightarrow> int" where
  "binade x =
     (if 1 \<le> x then int (bit_length (nat \<lfloor>x\<rfloor>)) - 1
      else - int (bit_length (nat (\<lceil>1 / x\<rceil> - 1))))"

text \<open>The nearest integer, a tie going to the even one.\<close>

definition round_half_even :: "rat \<Rightarrow> int" where
  "round_half_even y =
     (let f = \<lfloor>y\<rfloor>; d = y - of_int f
      in if d < 1 / 2 then f
         else if 1 / 2 < d then f + 1
         else if even f then f else f + 1)"

text \<open>
  IEEE 754 rounding of a real result to a double, to nearest with ties to even: 53
  significant bits, spacing \<open>2^-1074\<close> in the subnormal range, an infinity from
  \<open>2^1024\<close> on.
\<close>

definition double_round :: "rat \<Rightarrow> js_number" where
  "double_round x =
     (if x = 0 then Finite 0
      else
        (let a = \<bar>x\<bar>;
             q = max (binade a - 52) (- 1074);
             v = of_int (round_half_even (a / pow2 q)) * pow2 q
         in if pow2 1024 \<le> v then (if 0 < x then PlusInfinity else MinusInfinity)
            else Finite (if 0 < x then v else - v)))"

text \<open>\<open>x * 100\<close> on numbers.\<close>

fun times100 :: "js_number \<Rightarrow> js_number" where
  "times100 NaN = NaN"
| "times100 (Finite a) = double_round (a * 100)"
| "times100 PlusInfinity = PlusInfinity"
| "times100 MinusInfinity = MinusInfinity"

text \<open>
  What the engine decides: the decimal text of a finite number
  (\<open>Number.prototype.toString\<close>), the number a string converts to, and the message of
  the TypeError thrown when a property of \<open>null\<close> is read.
\<close>

record js_engine =
  number_text :: "rat \<Rightarrow> string"
  string_to_number :: "string \<Rightarrow> js_number"
  null_read_message :: string

text \<open>\<open>ToNumber\<close>, the conversion an arithmetic operator applies to its operand.\<close>

definition to_number :: "js_engine \<Rightarrow> jsval \<Rightarrow> js_number" where
  "to_number en v =
     (case v of
        Undefined \<Rightarrow> NaN
      | Null \<Rightarrow> Finite 0
      | Bool b \<Rightarrow> Finite (if b then 1 else 0)
      | Num r \<Rightarrow> Finite r
      | Str s \<Rightarrow> string_to_number en s
      | Arr vs \<Rightarrow> string_to_number en (to_string (number_text en) v)
      | Obj kvs \<Rightarrow> string_to_number en (to_string (number_text en) v))"

text \<open>The decimal digits of a positive natural number.\<close>

fun decimal :: "nat \<Rightarrow> string" where
  "decimal 0 = []"
| "decimal (Suc n) = decimal (Suc n div 10) @ [''0123456789'' ! (Suc n mod 10)]"

text \<open>
  \<open>x.toFixed(1)\<close>: the sign, then the integer \<open>n\<close> nearest to ten times the magnitude
  (the larger one on a tie) written with a point before its last digit. A number
  that is not finite, or is \<open>10^21\<close> or more, is written as \<open>String(x)\<close> writes it.
\<close>

definition toFixed1 :: "js_engine \<Rightarrow> js_number \<Rightarrow> string" where
  "toFixed1 en x =
     (case x of
        NaN \<Rightarrow> ''NaN''
      | PlusInfinity \<Rightarrow> ''Infinity''
      | MinusInfinity \<Rightarrow> ''-Infinity''
      | Finite r \<Rightarrow>
          (let s = (if r < 0 then ''-'' else []);
               a = \<bar>r\<bar>
           in if 10 ^ 21 \<le> a then s @ number_text en a
              else
                (let n = nat \<lfloor>a * 10 + 1 / 2\<rfloor>;
                     m = (if n = 0 then ''0'' else decimal n);
                     m' = (if length m \<le> 1 then replicate (2 - length m) (CHR ''0'') @ m else m)
                 in s @ take (length m' - 1) m' @ ''.'' @ drop (length m' - 1) m')))"

section \<open>What a fetch gives back\<close>

text \<open>
  A promise either rejects (\<open>Inl msg\<close>, with the message of the thrown error) or
  resolves (\<open>Inr v\<close>). A response carries its \<open>ok\<close> flag, its content-type header
  (\<open>None\<close> when \<open>headers.get\<close> returns null) and what reading the body as JSON and as
  text would give.
\<close>

type_synonym 'a promise = "string + 'a"

record response =
  res_ok :: bool
  res_content_type :: "string option"
  res_json :: "jsval promise"
  res_text :: "string promise"

section \<open>The health hook (useBackendHealth)\<close>

record health =
  online :: bool
  modelPresent :: bool
  "checking" :: bool

definition health_init :: health where
  "health_init = \<lparr> online = False, modelPresent = False, checking = True \<rparr>"

text \<open>
  One execution of \<open>check\<close>, from the outcome of \<open>fetch('/api/health')\<close>. The try block
  throws when the fetch rejects, when the status is not OK and when \<open>res.json()\<close>
  rejects; the catch block then clears both flags. The finally block clears \<open>checking\<close>.
\<close>

definition check_try :: "response promise \<Rightarrow> string + jsval" where
  "check_try r =
     (case r of
        Inl e \<Rightarrow> Inl e
      | Inr res \<Rightarrow>
          if \<not> res_ok res then Inl ''bad status''
          else res_json res)"

definition check :: "response promise \<Rightarrow> health \<Rightarrow> health" where
  "check r h =
     (case check_try r of
        Inr data \<Rightarrow>
          h\<lparr> online := True,
             modelPresent := truthy (opt_prop data ''model_present''),
             checking := False \<rparr>
      | Inl e \<Rightarrow>
          h\<lparr> online := False, modelPresent := False, checking := False \<rparr>)"

text \<open>The state of the hook after a sequence of check executions, oldest first.\<close>

fun checks :: "response promise list \<Rightarrow> health \<Rightarrow> health" where
  "checks [] h = h"
| "checks (r # rs) h = checks rs (check r h)"

text \<open>The states the hook can reach: the initial one, and any state a check leads to.\<close>

inductive reachable_health :: "health \<Rightarrow> bool" where
  h_init: "reachable_health health_init"
| h_step: "reachable_health h \<Longrightarrow> reachable_health (check r h)"

text \<open>
  The text of the HealthBadge component: ``Checking...'', ``API: Online, Model: OK'',
  ``API: Online, Model: Missing'' and ``API: Offline''.
\<close>

datatype badge = Checking | OnlineModelOK | OnlineModelMissing | Offline

definition HealthBadge :: "health \<Rightarrow> badge" where
  "HealthBadge h =
     (if checking h then Checking
      else if online h then (if modelPresent h then OnlineModelOK else OnlineModelMissing)
      else Offline)"

section \<open>File validation (Upload.jsx and Compare.jsx)\<close>

text \<open>A browser \<open>File\<close>: its name, its MIME type and its size in bytes.\<close>

record jsfile =
  file_name :: string
  file_type :: string
  file_size :: nat

definition MAX_BYTES :: nat where
  "MAX_BYTES = 5 * 1024 * 1024"

definition ACCEPTED_TYPES :: "string list" where
  "ACCEPTED_TYPES = [''image/jpeg'', ''image/png'', ''image/webp'']"

text \<open>\<open>validateFile\<close> of the Upload form; \<open>None\<close> is \<open>null\<close>. The empty string means valid.\<close>

definition validateFile :: "jsfile option \<Rightarrow> string" where
  "validateFile fo =
     (case fo of
        None \<Rightarrow> ''No file selected''
      | Some f \<Rightarrow>
          if file_type f \<notin> set ACCEPTED_TYPES
            then ''Only JPG, PNG, or WEBP images are allowed.''
          else if file_size f > MAX_BYTES then ''File is too large (max 5MB).''
          else [])"

section \<open>The Upload component\<close>

text \<open>The object \<open>setResult\<close> receives: three fields copied from the response.\<close>

record result =
  label :: jsval
  confidence :: jsval
  model_used :: jsval

text \<open>
  The component's state: the three flags of the health hook and the seven \<open>useState\<close>
  cells (\<open>null\<close> is \<open>None\<close>).
\<close>

record upload_state =
  u_health :: health
  u_file :: "jsfile option"
  u_preview :: string
  u_result :: "result option"
  u_fullCompare :: "jsval option"
  u_loading :: bool
  u_error :: string
  u_dragActive :: bool

definition upload_init :: upload_state where
  "upload_init =
     \<lparr> u_health = health_init, u_file = None, u_preview = [], u_result = None,
       u_fullCompare = None, u_loading = False, u_error = [], u_dragActive = False \<rparr>"

text \<open>
  \<open>applyFile\<close>; \<open>url\<close> is the object URL that \<open>URL.createObjectURL\<close> returns for
  this call.
\<close>

definition applyFile :: "string \<Rightarrow> jsfile option \<Rightarrow> upload_state \<Rightarrow> upload_state" where
  "applyFile url fo s =
     (let s1 = s\<lparr> u_result := None, u_error := [] \<rparr>;
          err = validateFile fo
      in if err \<noteq> [] then s1\<lparr> u_file := None, u_preview := [], u_error := err \<rparr>
         else s1\<lparr> u_file := fo,
                 u_preview := (case fo of Some f \<Rightarrow> url | None \<Rightarrow> []) \<rparr>)"

text \<open>\<open>onFileChange\<close>: the first file of the input, or null.\<close>

definition onFileChange :: "string \<Rightarrow> jsfile option \<Rightarrow> upload_state \<Rightarrow> upload_state" where
  "onFileChange url fo s = applyFile url fo s"

text \<open>\<open>onDrop\<close>: applies the first dropped file, when there is one.\<close>

definition onDrop :: "string \<Rightarrow> jsfile option \<Rightarrow> upload_state \<Rightarrow> upload_state" where
  "onDrop url fo s =
     (let s1 = s\<lparr> u_dragActive := False \<rparr>
      in case fo of None \<Rightarrow> s1 | Some f \<Rightarrow> applyFile url (Some f) s1)"

definition onDragOver :: "upload_state \<Rightarrow> upload_state" where
  "onDragOver s = s\<lparr> u_dragActive := True \<rparr>"

definition onDragLeave :: "upload_state \<Rightarrow> upload_state" where
  "onDragLeave s = s\<lparr> u_dragActive := False \<rparr>"

definition reset :: "upload_state \<Rightarrow> upload_state" where
  "reset s = s\<lparr> u_file := None, u_preview := [], u_result := None, u_error := [] \<rparr>"

text \<open>The submit button's \<open>disabled\<close> attribute.\<close>

definition submit_disabled :: "upload_state \<Rightarrow> bool" where
  "submit_disabled s =
     (u_loading s \<or> \<not> online (u_health s) \<or> checking (u_health s))"

text \<open>What is rendered below the form: the error box, and the card with the prediction.\<close>

definition error_box_shown :: "upload_state \<Rightarrow> bool" where
  "error_box_shown s = (u_error s \<noteq> [])"

definition result_card_shown :: "upload_state \<Rightarrow> bool" where
  "result_card_shown s = (u_result s \<noteq> None \<and> u_error s = [])"

subsection \<open>The browser around the component\<close>

text \<open>
  \<open>sessionStorage\<close> maps keys to stored texts. A text is kept as what \<open>JSON.parse\<close>
  makes of it: \<open>Some v\<close> when it parses to \<open>v\<close>, \<open>None\<close> when \<open>JSON.parse\<close> throws.
  \<open>setItem\<close> with the text of \<open>JSON.stringify(v)\<close> therefore stores
  \<open>json_roundtrip v\<close>; for \<open>undefined\<close> the text is ``undefined'', which does not
  parse. A write may throw (\<open>can_store\<close> false), and the callers swallow that.
\<close>

type_synonym storage = "string \<rightharpoonup> jsval option"

definition setItem_json :: "bool \<Rightarrow> string \<Rightarrow> jsval \<Rightarrow> storage \<Rightarrow> storage" where
  "setItem_json can_store k v store =
     (if can_store
        then store(k \<mapsto> (if v = Undefined then None else Some (json_roundtrip v)))
      else store)"

text \<open>
  The form is one route of the application: \<open>mounted\<close> tells whether an instance of
  it is on the page, and \<open>ui\<close> is that instance's state (while none is mounted, the
  state the last one had, which nothing reads). \<open>detect_requests\<close> counts the POST
  requests to /api/detect issued so far, \<open>in_flight\<close> those of the mounted instance that
  have not settled yet, and \<open>stale_in_flight\<close> those of instances unmounted since:
  no request is aborted on unmounting.
\<close>

record browser =
  mounted :: bool
  ui :: upload_state
  sessionStorage :: storage
  detect_requests :: nat
  in_flight :: nat
  stale_in_flight :: nat

definition browser_init :: browser where
  "browser_init =
     \<lparr> mounted = False, ui = upload_init, sessionStorage = Map.empty,
       detect_requests = 0, in_flight = 0, stale_in_flight = 0 \<rparr>"

text \<open>The requests to /api/detect that have not settled yet, whoever issued them.\<close>

definition pending :: "browser \<Rightarrow> nat" where
  "pending w = in_flight w + stale_in_flight w"

subsection \<open>onSubmit\<close>

text \<open>
  The handler up to its \<open>await fetch\<close>: both messages are cleared; with no file
  selected an error is set and the handler returns, otherwise \<open>loading\<close> is set and the
  request is issued. The handler is suspended there, and other handlers run until the
  fetch settles.
\<close>

definition onSubmit_begin :: "browser \<Rightarrow> browser" where
  "onSubmit_begin w =
     (let s1 = (ui w)\<lparr> u_error := [], u_result := None \<rparr>
      in case u_file s1 of
           None \<Rightarrow> w\<lparr> ui := s1\<lparr> u_error := ''Please select an image first.'' \<rparr> \<rparr>
         | Some f \<Rightarrow>
             w\<lparr> ui := s1\<lparr> u_loading := True \<rparr>,
                detect_requests := detect_requests w + 1,
                in_flight := in_flight w + 1 \<rparr>)"

text \<open>\<open>res.headers.get('content-type') || ''\<close>, and whether it names JSON.\<close>

definition contentType :: "response \<Rightarrow> string" where
  "contentType res = (case res_content_type res of None \<Rightarrow> [] | Some c \<Rightarrow> c)"

definition is_json :: "response \<Rightarrow> bool" where
  "is_json res = str_includes (contentType res) ''application/json''"

text \<open>
  The try block after the fetch has settled, up to the point where \<open>data\<close> is known
  and the status was OK. \<open>Inl msg\<close> is a thrown error with message \<open>msg\<close>.
\<close>

definition detect_try :: "js_engine \<Rightarrow> response promise \<Rightarrow> jsval promise" where
  "detect_try en r =
     (case r of
        Inl e \<Rightarrow> Inl e
      | Inr res \<Rightarrow>
          if is_json res then
            (case res_json res of
               Inl e \<Rightarrow> Inl e
             | Inr data \<Rightarrow>
                 if \<not> res_ok res
                   then Inl (to_string (number_text en)
                               (js_or (opt_prop data ''error'') (Str ''Request failed'')))
                 else Inr data)
          else
            (case res_text res of
               Inl e \<Rightarrow> Inl e
             | Inr txt \<Rightarrow>
                 Inl (if take 200 txt \<noteq> [] then take 200 txt
                      else ''Non-JSON response from server'')))"

text \<open>
  The rest of the try block: the result object and, when the response carries
  \<open>models\<close> and \<open>selection\<close>, the comparison payload. Reading \<open>data.label\<close> of a
  \<open>null\<close> body throws a TypeError.
\<close>

definition comparePayload :: "jsval \<Rightarrow> jsval" where
  "comparePayload data =
     Obj [(''models'', opt_prop data ''models''),
          (''selection'', opt_prop data ''selection''),
          (''final'', Obj [(''label'', opt_prop data ''label''),
                          (''confidence'', opt_prop data ''confidence'')])]"

definition detect_result :: "js_engine \<Rightarrow> jsval \<Rightarrow> (result \<times> jsval option) promise" where
  "detect_result en data =
     (case get_prop data ''label'' of
        None \<Rightarrow> Inl (null_read_message en)
      | Some l \<Rightarrow>
          Inr (\<lparr> label = l,
                 confidence = opt_prop data ''confidence'',
                 model_used = opt_prop data ''model_used'' \<rparr>,
               if truthy (opt_prop data ''models'') \<and> truthy (opt_prop data ''selection'')
                 then Some (comparePayload data) else None))"

text \<open>The whole try block: what it throws, or what it hands to the setters.\<close>

definition try_block :: "js_engine \<Rightarrow> response promise \<Rightarrow> (result \<times> jsval option) promise" where
  "try_block en r =
     (case detect_try en r of
        Inl e \<Rightarrow> Inl e
      | Inr data \<Rightarrow> detect_result en data)"

text \<open>
  The handler from the moment the fetch settles, in the instance that issued the
  request and is still mounted: the try block, the catch block and the finally block.
\<close>

definition onSubmit_settle ::
  "js_engine \<Rightarrow> bool \<Rightarrow> response promise \<Rightarrow> browser \<Rightarrow> browser" where
  "onSubmit_settle en can_store r w =
     (let w1 =
        (case try_block en r of
           Inl msg \<Rightarrow>
             w\<lparr> ui := (ui w)\<lparr> u_error := (if msg \<noteq> [] then msg else ''Request failed'') \<rparr> \<rparr>
         | Inr (res, None) \<Rightarrow> w\<lparr> ui := (ui w)\<lparr> u_result := Some res \<rparr> \<rparr>
         | Inr (res, Some payload) \<Rightarrow>
             w\<lparr> ui := (ui w)\<lparr> u_result := Some res, u_fullCompare := Some payload \<rparr>,
                sessionStorage := setItem_json can_store ''lastCompare'' payload (sessionStorage w) \<rparr>)
      in w1\<lparr> ui := (ui w1)\<lparr> u_loading := False \<rparr>, in_flight := in_flight w1 - 1 \<rparr>)"

text \<open>
  The same continuation for a request whose instance has been unmounted: the state
  setters of an unmounted component do nothing, the write to \<open>sessionStorage\<close> happens
  all the same.
\<close>

definition stale_settle ::
  "js_engine \<Rightarrow> bool \<Rightarrow> response promise \<Rightarrow> browser \<Rightarrow> browser" where
  "stale_settle en can_store r w =
     (let w1 =
        (case try_block en r of
           Inl msg \<Rightarrow> w
         | Inr (res, None) \<Rightarrow> w
         | Inr (res, Some payload) \<Rightarrow>
             w\<lparr> sessionStorage := setItem_json can_store ''lastCompare'' payload (sessionStorage w) \<rparr>)
      in w1\<lparr> stale_in_flight := stale_in_flight w1 - 1 \<rparr>)"

subsection \<open>The component as an event system\<close>

text \<open>
  What can happen, one event at a time, each seen by the handlers of the latest
  render. To the mounted form: a click on the submit button (possible only while it is
  not disabled), its pending request settling, a file picked or dropped, drag
  feedback, the Clear button (shown while a file or a result is there) and a health
  check finishing. To the page: leaving the form's route (a link of the navigation bar,
  or the button that opens the comparison chart), which unmounts the form, coming
  back to it, which mounts a fresh instance, and a request of an unmounted instance
  settling.
\<close>

datatype event =
    Submit
  | Settle bool "response promise"
  | FileChange string "jsfile option"
  | Drop string "jsfile option"
  | DragOver
  | DragLeave
  | Reset
  | HealthCheck "response promise"
  | Unmount
  | Mount
  | SettleStale bool "response promise"

definition step :: "js_engine \<Rightarrow> event \<Rightarrow> browser \<Rightarrow> browser option" where
  "step en e w =
     (case e of
        Submit \<Rightarrow>
          if \<not> mounted w \<or> submit_disabled (ui w) then None else Some (onSubmit_begin w)
      | Settle can_store r \<Rightarrow>
          if \<not> mounted w \<or> in_flight w = 0 then None
          else Some (onSubmit_settle en can_store r w)
      | FileChange url fo \<Rightarrow>
          if \<not> mounted w then None else Some (w\<lparr> ui := onFileChange url fo (ui w) \<rparr>)
      | Drop url fo \<Rightarrow>
          if \<not> mounted w then None else Some (w\<lparr> ui := onDrop url fo (ui w) \<rparr>)
      | DragOver \<Rightarrow>
          if \<not> mounted w then None else Some (w\<lparr> ui := onDragOver (ui w) \<rparr>)
      | DragLeave \<Rightarrow>
          if \<not> mounted w then None else Some (w\<lparr> ui := onDragLeave (ui w) \<rparr>)
      | Reset \<Rightarrow>
          if \<not> mounted w \<or> (u_file (ui w) = None \<and> u_result (ui w) = None) then None
          else Some (w\<lparr> ui := reset (ui w) \<rparr>)
      | HealthCheck r \<Rightarrow>
          if \<not> mounted w then None
          else Some (w\<lparr> ui := (ui w)\<lparr> u_health := check r (u_health (ui w)) \<rparr> \<rparr>)
      | Unmount \<Rightarrow>
          if \<not> mounted w then None
          else Some (w\<lparr> mounted := False,
                        stale_in_flight := stale_in_flight w + in_flight w,
                        in_flight := 0 \<rparr>)
      | Mount \<Rightarrow>
          if mounted w then None else Some (w\<lparr> mounted := True, ui := upload_init \<rparr>)
      | SettleStale can_store r \<Rightarrow>
          if stale_in_flight w = 0 then None else Some (stale_settle en can_store r w))"

fun run :: "js_engine \<Rightarrow> event list \<Rightarrow> browser \<Rightarrow> browser option" where
  "run en [] w = Some w"
| "run en (e # es) w = (case step en e w of None \<Rightarrow> None | Some w' \<Rightarrow> run en es w')"

inductive reachable :: "js_engine \<Rightarrow> browser \<Rightarrow> bool" for en where
  r_start: "reachable en browser_init"
| r_step: "reachable en w \<Longrightarrow> step en e w = Some w' \<Longrightarrow> reachable en w'"

text \<open>
  The invariant of the event system: \<open>loading\<close> tells whether the mounted instance has
  a request in flight, no result is set while it has, and an unmounted form has none
  of its own.
\<close>

definition flight_inv :: "browser \<Rightarrow> bool" where
  "flight_inv w =
     (if mounted w
        then in_flight w = (if u_loading (ui w) then 1 else 0) \<and>
             (u_loading (ui w) \<longrightarrow> u_result (ui w) = None)
      else in_flight w = 0)"

text \<open>
  The events that, happening while a request is in flight, leave the error message
  alone: everything but a file that fails validation, and the events that end or
  leave the wait.
\<close>

fun leaves_error :: "event \<Rightarrow> bool" where
  "leaves_error (FileChange url fo) = (validateFile fo = [])"
| "leaves_error (Drop url fo) = (case fo of None \<Rightarrow> True | Some f \<Rightarrow> validateFile (Some f) = [])"
| "leaves_error Submit = False"
| "leaves_error (Settle can_store r) = False"
| "leaves_error Unmount = False"
| "leaves_error Mount = False"
| "leaves_error e = True"

section \<open>The Compare page\<close>

record compare_state =
  c_file :: "jsfile option"
  c_preview :: string
  c_loading :: bool
  c_error :: string
  c_result :: jsval

definition compare_init :: compare_state where
  "compare_init =
     \<lparr> c_file = None, c_preview = [], c_loading = False, c_error = [], c_result = Null \<rparr>"

text \<open>\<open>onFile\<close>, with the same two constants as the Upload form.\<close>

definition onFile :: "string \<Rightarrow> jsfile option \<Rightarrow> compare_state \<Rightarrow> compare_state" where
  "onFile url fo s =
     (let s1 = s\<lparr> c_error := [], c_result := Null \<rparr>
      in case fo of
           None \<Rightarrow> s1\<lparr> c_file := None, c_preview := [] \<rparr>
         | Some f \<Rightarrow>
             if file_type f \<notin> set ACCEPTED_TYPES
               then s1\<lparr> c_error := ''Only JPG, PNG, or WEBP images are allowed.'' \<rparr>
             else if file_size f > MAX_BYTES
               then s1\<lparr> c_error := ''File is too large (max 5MB).'' \<rparr>
             else s1\<lparr> c_file := Some f, c_preview := url \<rparr>)"

text \<open>
  The effect that runs when the page is shown: the result passed in the navigation
  state is taken and stored; otherwise the stored text, when there is one that
  parses, is read back.
\<close>

definition load_result ::
  "jsval \<Rightarrow> bool \<Rightarrow> storage \<Rightarrow> compare_state \<Rightarrow> compare_state \<times> storage" where
  "load_result location_state can_store store s =
     (let passed =
        (if truthy location_state \<and> truthy (opt_prop location_state ''compareResult'')
           then opt_prop location_state ''compareResult'' else Null)
      in if truthy passed then
           (s\<lparr> c_result := passed \<rparr>, setItem_json can_store ''lastCompare'' passed store)
         else
           (case store ''lastCompare'' of
              None \<Rightarrow> (s, store)
            | Some None \<Rightarrow> (s, store)
            | Some (Some saved) \<Rightarrow> (s\<lparr> c_result := saved \<rparr>, store)))"

text \<open>
  The line under the chosen model, shown when there is a result with
  \<open>selection.detail\<close>: the texts of \<open>(detail.cnn_acc*100).toFixed(1)\<close> and of the same
  for \<open>svm_acc\<close> and \<open>rf_acc\<close>, which the page prints after ``CNN:'', ``SVM:'' and
  ``RF:'', each followed by a percent sign.
\<close>

definition accuracy_line :: "js_engine \<Rightarrow> jsval \<Rightarrow> string list option" where
  "accuracy_line en result =
     (let detail = opt_prop (opt_prop result ''selection'') ''detail''
      in if truthy result \<and> truthy detail
           then Some (map (\<lambda>k. toFixed1 en (times100 (to_number en (opt_prop detail k))))
                        [''cnn_acc'', ''svm_acc'', ''rf_acc''])
         else None)"

section \<open>The model comparison chart\<close>

text \<open>
  \<open>(data.models?.X?.accuracy || 0) * 100\<close> for the model \<open>X\<close>, from the body \<open>data\<close>
  of /api/models/comparison.
\<close>

definition acc_percent :: "js_engine \<Rightarrow> jsval \<Rightarrow> string \<Rightarrow> js_number" where
  "acc_percent en data x =
     times100 (to_number en
       (js_or (opt_prop (opt_prop (opt_prop data ''models'') x) ''accuracy'') (Num 0)))"

text \<open>
  The heights of the bars labelled CNN, SVM and Random Forest; nothing is drawn
  while there is no data.
\<close>

definition chartData :: "js_engine \<Rightarrow> jsval \<Rightarrow> js_number list option" where
  "chartData en data =
     (if \<not> truthy data then None
      else Some [acc_percent en data ''cnn'', acc_percent en data ''svm'',
                 acc_percent en data ''random_forest''])"

section \<open>The detection route of the backend\<close>

text \<open>
  The route that answers /api/detect (server/routes/detect.py) is not among the source
  files. Its decision logic is taken from the specification and the README.
\<close>

datatype model_name = CNN | SVM | RandomForest

text \<open>
  Modelled from the spec: the comparison behind the selection rule of the missing
  detection route, ``choose the model with highest validation accuracy; break ties by
  highest confidence on this image''. \<open>val_acc\<close> is the precomputed table of validation
  accuracies and \<open>conf\<close> gives each model's confidence on the image.
\<close>

definition better :: "(model_name \<Rightarrow> rat) \<Rightarrow> (model_name \<Rightarrow> rat) \<Rightarrow> model_name \<Rightarrow> model_name \<Rightarrow> bool" where
  "better val_acc conf a b =
     (val_acc a > val_acc b \<or> (val_acc a = val_acc b \<and> conf a > conf b))"

text \<open>
  Modelled from the spec: the model selection of the missing detection route, by the
  rule above over the three classifiers.
\<close>

definition select_model :: "(model_name \<Rightarrow> rat) \<Rightarrow> (model_name \<Rightarrow> rat) \<Rightarrow> model_name" where
  "select_model val_acc conf =
     fold (\<lambda>m best. if better val_acc conf m best then m else best) [SVM, RandomForest] CNN"

text \<open>
  Modelled from the spec: the function \<open>_validate_mango_image(cnn_conf, svm_conf, rf_conf,
  threshold=0.50)\<close> of the missing detection route, known from the README by its
  signature only. ``Reject if max confidence < 50% or average confidence < 40%.''
  Confidences are fractions of 1, as the default threshold is.
\<close>

definition validate_mango_image :: "rat \<Rightarrow> rat \<Rightarrow> rat \<Rightarrow> rat \<Rightarrow> bool" where
  "validate_mango_image cnn_conf svm_conf rf_conf threshold =
     (let max_conf = max cnn_conf (max svm_conf rf_conf);
          avg_conf = (cnn_conf + svm_conf + rf_conf) / 3
      in \<not> (max_conf < threshold \<or> avg_conf < 2 / 5))"

record prediction =
  p_label :: string
  p_confidence :: rat

datatype detection = NotMango | Detected string rat model_name

text \<open>
  Modelled from the spec: the detection operation of the missing route. It runs the
  three models, rejects the image by the rule above and otherwise answers with the
  chosen model's label and confidence.
\<close>

definition detect :: "(model_name \<Rightarrow> rat) \<Rightarrow> (model_name \<Rightarrow> prediction) \<Rightarrow> detection" where
  "detect val_acc preds =
     (let conf = (\<lambda>m. p_confidence (preds m))
      in if \<not> validate_mango_image (conf CNN) (conf SVM) (conf RandomForest) (1 / 2)
           then NotMango
         else (let m = select_model val_acc conf
               in Detected (p_label (preds m)) (conf m) m))"

section \<open>Sample inputs\<close>

text \<open>A health answer of a backend whose model file is missing, and one with the model.\<close>

definition health_response :: "bool \<Rightarrow> response" where
  "health_response present =
     \<lparr> res_ok = True, res_content_type = Some ''application/json'',
       res_json = Inr (Obj [(''status'', Str ''ok''), (''model_present'', Bool present)]),
       res_text = Inl ''body stream already read'' \<rparr>"

text \<open>A 200 answer with an HTML body, as a static host gives for an unknown path.\<close>

definition html_response :: response where
  "html_response =
     \<lparr> res_ok = True, res_content_type = Some ''text/html'',
       res_json = Inl ''Unexpected token < in JSON at position 0'',
       res_text = Inr ''<!doctype html>'' \<rparr>"

definition error_response :: response where
  "error_response =
     \<lparr> res_ok = False, res_content_type = Some ''application/json'',
       res_json = Inr (Obj [(''error'', Str ''No image uploaded'')]),
       res_text = Inl ''body stream already read'' \<rparr>"

text \<open>
  An answer of /api/detect with the per-model breakdown. The validation accuracies
  are the doubles nearest to 0.57, 0.75 and 0.5.
\<close>

definition detect_data :: jsval where
  "detect_data =
     Obj [(''label'', Str ''organic''), (''confidence'', Num 93), (''model_used'', Str ''cnn''),
          (''models'', Obj [(''cnn'', Obj [(''confidence'', Num 93)]),
                           (''svm'', Obj [(''confidence'', Num 71)]),
                           (''random_forest'', Obj [(''confidence'', Num 64)])]),
          (''selection'',
             Obj [(''model'', Str ''svm''), (''reason'', Str ''best validation accuracy''),
                  (''detail'', Obj [(''cnn_acc'', Num (5134103575202365 / 9007199254740992)),
                                   (''svm_acc'', Num (3 / 4)),
                                   (''rf_acc'', Num (1 / 2))])])]"

definition detect_response :: response where
  "detect_response =
     \<lparr> res_ok = True, res_content_type = Some ''application/json'',
       res_json = Inr detect_data, res_text = Inl ''body stream already read'' \<rparr>"

definition mango_jpg :: jsfile where
  "mango_jpg = \<lparr> file_name = ''mango.jpg'', file_type = ''image/jpeg'', file_size = 204800 \<rparr>"

definition notes_pdf :: jsfile where
  "notes_pdf = \<lparr> file_name = ''notes.pdf'', file_type = ''application/pdf'', file_size = 1000 \<rparr>"

definition huge_png :: jsfile where
  "huge_png = \<lparr> file_name = ''huge.png'', file_type = ''image/png'', file_size = 5242881 \<rparr>"


text \<open>
  An engine for the samples. None of them writes a number out through it, converts a
  string to a number or reads a field of \<open>null\<close>.
\<close>

definition sample_engine :: js_engine where
  "sample_engine =
     \<lparr> number_text = (\<lambda>r. ''0''), string_to_number = (\<lambda>s. NaN),
       null_read_message = ''Cannot read properties of null'' \<rparr>"

text \<open>The form is opened and its first health check finds the backend.\<close>

definition to_online :: "event list" where
  "to_online = [Mount, HealthCheck (Inr (health_response True))]"

definition browser_online :: browser where
  "browser_online =
     browser_init\<lparr> mounted := True,
       ui := upload_init\<lparr> u_health := check (Inr (health_response True)) health_init \<rparr> \<rparr>"

text \<open>Then a valid image is picked.\<close>

definition to_file :: "event list" where
  "to_file = to_online @ [FileChange ''blob:1'' (Some mango_jpg)]"

definition browser_with_file :: browser where
  "browser_with_file =
     browser_online\<lparr> ui := applyFile ''blob:1'' (Some mango_jpg) (ui browser_online) \<rparr>"

text \<open>The image is submitted.\<close>

definition browser_submitted :: browser where
  "browser_submitted = onSubmit_begin browser_with_file"

text \<open>The image is submitted, and while the request is pending a PDF is picked.\<close>

definition to_wrong_file :: "event list" where
  "to_wrong_file = to_file @ [Submit, FileChange ''blob:2'' (Some notes_pdf)]"

definition browser_wrong_file :: browser where
  "browser_wrong_file =
     browser_submitted\<lparr> ui := onFileChange ''blob:2'' (Some notes_pdf) (ui browser_submitted) \<rparr>"

text \<open>
  The image is submitted, the user leaves the page and comes back, and submits the
  image again.
\<close>

definition to_second_request :: "event list" where
  "to_second_request =
     to_file @ [Submit, Unmount, Mount, HealthCheck (Inr (health_response True)),
                FileChange ''blob:3'' (Some mango_jpg), Submit]"

text \<open>What the Compare page reads back after the sample answer of /api/detect.\<close>

definition stored_compare :: jsval where
  "stored_compare =
     Obj [(''models'', Obj [(''cnn'', Obj [(''confidence'', Num 93)]),
                           (''svm'', Obj [(''confidence'', Num 71)]),
                           (''random_forest'', Obj [(''confidence'', Num 64)])]),
          (''selection'',
             Obj [(''model'', Str ''svm''), (''reason'', Str ''best validation accuracy''),
                  (''detail'', Obj [(''cnn_acc'', Num (5134103575202365 / 9007199254740992)),
                                   (''svm_acc'', Num (3 / 4)),
                                   (''rf_acc'', Num (1 / 2))])]),
          (''final'', Obj [(''label'', Str ''organic''), (''confidence'', Num 93)])]"

text \<open>
  A body of /api/models/comparison and a result of the Compare page that differ
  from one another in nothing but the validation accuracy \<open>a\<close> of the CNN.
\<close>

definition comparison_body :: "rat \<Rightarrow> jsval" where
  "comparison_body a =
     Obj [(''models'', Obj [(''cnn'', Obj [(''accuracy'', Num a)]),
                           (''svm'', Obj [(''accuracy'', Num (3 / 4))]),
                           (''random_forest'', Obj [(''accuracy'', Num (1 / 2))])]),
          (''best'', Obj [(''name'', Str ''svm'')])]"

definition compare_result :: "rat \<Rightarrow> jsval" where
  "compare_result a =
     Obj [(''models'', Obj [(''cnn'', Obj [(''confidence'', Num 93)])]),
          (''selection'',
             Obj [(''model'', Str ''svm''),
                  (''detail'', Obj [(''cnn_acc'', Num a), (''svm_acc'', Num (3 / 4)),
                                   (''rf_acc'', Num (1 / 2))])]),
          (''final'', Obj [(''label'', Str ''organic''), (''confidence'', Num 93)])]"


text \<open>A table of validation accuracies in which CNN and SVM are tied.\<close>

definition tied_acc :: "model_name \<Rightarrow> rat" where
  "tied_acc m = (case m of CNN \<Rightarrow> 9 / 10 | SVM \<Rightarrow> 9 / 10 | RandomForest \<Rightarrow> 4 / 5)"

text \<open>The three predictions for a mango, and for a picture that is none.\<close>

definition mango_preds :: "model_name \<Rightarrow> prediction" where
  "mango_preds m =
     (case m of
        CNN \<Rightarrow> \<lparr> p_label = ''organic'', p_confidence = 7 / 10 \<rparr>
      | SVM \<Rightarrow> \<lparr> p_label = ''pesticide'', p_confidence = 4 / 5 \<rparr>
      | RandomForest \<Rightarrow> \<lparr> p_label = ''organic'', p_confidence = 99 / 100 \<rparr>)"

definition cat_preds :: "model_name \<Rightarrow> prediction" where
  "cat_preds m =
     (case m of
        CNN \<Rightarrow> \<lparr> p_label = ''organic'', p_confidence = 3 / 5 \<rparr>
      | SVM \<Rightarrow> \<lparr> p_label = ''pesticide'', p_confidence = 3 / 10 \<rparr>
      | RandomForest \<Rightarrow> \<lparr> p_label = ''organic'', p_confidence = 1 / 5 \<rparr>)"


section \<open>Properties of the health hook\<close>

lemma check_cases:
  "check r h = h\<lparr> online := False, modelPresent := False, checking := False \<rparr> \<or>
   (\<exists>data. check_try r = Inr data \<and>
      check r h = h\<lparr> online := True,
                     modelPresent := truthy (opt_prop data ''model_present''),
                     checking := False \<rparr>)"
  by (cases "check_try r") (simp_all add: check_def)

lemma check_keeps_inv: "modelPresent (check r h) \<Longrightarrow> online (check r h)"
  using check_cases [of r h] by auto

lemma check_try_failed:
  "(\<forall>res. r = Inr res \<longrightarrow> \<not> res_ok res \<or> (\<exists>e. res_json res = Inl e)) \<Longrightarrow> \<exists>e. check_try r = Inl e"
  by (cases r) (auto simp: check_try_def)

lemma check_try_ok:
  "r = Inr res \<Longrightarrow> res_ok res \<Longrightarrow> res_json res = Inr data \<Longrightarrow> check_try r = Inr data"
  by (simp add: check_try_def)

text \<open>
  Claim C4, as amended. One execution of \<open>check\<close>: when the fetch of /api/health throws,
  when the status is not OK, and when the status is OK but the body cannot be read as
  JSON (which throws in the same try block), \<open>online\<close> and \<open>modelPresent\<close> are both set
  to false. When the status is OK and the body is read, \<open>online\<close> is set to true and
  \<open>modelPresent\<close> to the truthiness of the field \<open>model_present\<close>, so that a missing
  model shows as the badge ``API: Online, Model: Missing'' and not as an error.
  \<open>checking\<close> is cleared in every case.
\<close>

theorem check_sets_flags:
  "((\<forall>res. r = Inr res \<longrightarrow> \<not> res_ok res \<or> (\<exists>e. res_json res = Inl e)) \<longrightarrow>
      \<not> online (check r h) \<and> \<not> modelPresent (check r h)) \<and>
   (\<forall>res data. r = Inr res \<and> res_ok res \<and> res_json res = Inr data \<longrightarrow>
      online (check r h) \<and>
      modelPresent (check r h) = truthy (opt_prop data ''model_present'') \<and>
      HealthBadge (check r h) =
        (if truthy (opt_prop data ''model_present'') then OnlineModelOK else OnlineModelMissing)) \<and>
   \<not> checking (check r h)"
proof (intro conjI impI allI)
  assume "\<forall>res. r = Inr res \<longrightarrow> \<not> res_ok res \<or> (\<exists>e. res_json res = Inl e)"
  then obtain e where "check_try r = Inl e" using check_try_failed by blast
  then show "\<not> online (check r h)" "\<not> modelPresent (check r h)"
    by (simp_all add: check_def)
next
  fix res data
  assume "r = Inr res \<and> res_ok res \<and> res_json res = Inr data"
  then have t: "check_try r = Inr data" by (simp add: check_try_ok)
  show "online (check r h)" using t by (simp add: check_def)
  show "modelPresent (check r h) = truthy (opt_prop data ''model_present'')"
    using t by (simp add: check_def)
  show "HealthBadge (check r h) =
        (if truthy (opt_prop data ''model_present'') then OnlineModelOK else OnlineModelMissing)"
    using t by (simp add: check_def HealthBadge_def)
next
  show "\<not> checking (check r h)"
    by (cases "check_try r") (simp_all add: check_def)
qed

theorem check_sets_flags_witness:
  "\<not> online (check (Inl ''Failed to fetch'') health_init) \<and>
   \<not> online (check (Inr error_response) health_init) \<and>
   \<not> online (check (Inr html_response) health_init) \<and>
   online (check (Inr (health_response False)) health_init) \<and>
   \<not> modelPresent (check (Inr (health_response False)) health_init) \<and>
   HealthBadge (check (Inr (health_response False)) health_init) = OnlineModelMissing \<and>
   modelPresent (check (Inr (health_response True)) health_init)"
  using check_sets_flags [of "Inl ''Failed to fetch''" health_init]
    check_sets_flags [of "Inr error_response" health_init]
    check_sets_flags [of "Inr html_response" health_init]
    check_sets_flags [of "Inr (health_response False)" health_init]
    check_sets_flags [of "Inr (health_response True)" health_init]
  by (simp add: error_response_def html_response_def health_response_def opt_prop_def)

text \<open>
  Claim C4 as first stated, with \<open>online\<close> set to true whenever the fetch returns an OK
  status, fails: for an answer with status 200 and an HTML body, \<open>res.json()\<close> throws and
  the catch block sets \<open>online\<close> and \<open>modelPresent\<close> to false.
\<close>

theorem ok_status_not_json_counterexample:
  "res_ok html_response \<and>
   \<not> online (check (Inr html_response) health_init) \<and>
   \<not> modelPresent (check (Inr html_response) health_init)"
  by (simp add: html_response_def check_def check_try_def)

lemma checks_reachable: "reachable_health h \<Longrightarrow> reachable_health (checks rs h)"
  by (induction rs arbitrary: h) (auto intro: reachable_health.intros)

lemma reachable_health_inv: "reachable_health h \<Longrightarrow> modelPresent h \<longrightarrow> online h"
  by (induction rule: reachable_health.induct) (auto simp: health_init_def check_keeps_inv)

text \<open>
  Claim C8. In every state that the health hook reaches by executing \<open>check\<close> any number
  of times from its initial state, \<open>modelPresent\<close> implies \<open>online\<close>; and from any state
  at all, one execution of \<open>check\<close> never leaves \<open>modelPresent\<close> true with \<open>online\<close>
  false.
\<close>

theorem modelPresent_implies_online:
  "(reachable_health h \<longrightarrow> modelPresent h \<longrightarrow> online h) \<and>
   (modelPresent (checks rs health_init) \<longrightarrow> online (checks rs health_init)) \<and>
   (modelPresent (check r h') \<longrightarrow> online (check r h'))"
  using reachable_health_inv checks_reachable [OF h_init] check_keeps_inv by blast

theorem modelPresent_implies_online_witness:
  "reachable_health (check (Inr (health_response True)) health_init) \<and>
   modelPresent (check (Inr (health_response True)) health_init) \<and>
   online (check (Inr (health_response True)) health_init) \<and>
   \<not> modelPresent (checks [Inr (health_response True), Inl ''Failed to fetch''] health_init)"
proof -
  let ?h = "check (Inr (health_response True)) health_init"
  have r: "reachable_health ?h" by (rule h_step [OF h_init])
  have m: "modelPresent ?h"
    by (simp add: check_def check_try_def health_response_def opt_prop_def)
  have o: "online ?h"
    using modelPresent_implies_online [of ?h "[]" "Inl []" health_init] r m by blast
  have n: "\<not> modelPresent (checks [Inr (health_response True), Inl ''Failed to fetch''] health_init)"
    by (simp add: check_def check_try_def)
  from r m o n show ?thesis by blast
qed

section \<open>Properties of file validation\<close>

lemma validateFile_empty_iff:
  "(validateFile (Some f) = []) =
   (file_type f \<in> {''image/jpeg'', ''image/png'', ''image/webp''} \<and> file_size f \<le> 5 * 1024 * 1024)"
  by (auto simp: validateFile_def ACCEPTED_TYPES_def MAX_BYTES_def)

lemma applyFile_error: "u_error (applyFile url fo s) = validateFile fo"
  by (simp add: applyFile_def Let_def)

lemma applyFile_file:
  "u_file (applyFile url fo s) = (if validateFile fo = [] then fo else None)"
  by (simp add: applyFile_def Let_def)

lemma applyFile_preview:
  "u_preview (applyFile url (Some f) s) = (if validateFile (Some f) = [] then url else [])"
  by (simp add: applyFile_def Let_def)

lemma onFile_error_iff:
  "(c_error (onFile url (Some f) c) = []) = (validateFile (Some f) = [])"
  by (simp add: onFile_def validateFile_def Let_def)

lemma onFile_file:
  "c_file (onFile url (Some f) c) = (if validateFile (Some f) = [] then Some f else c_file c)"
  by (simp add: onFile_def validateFile_def Let_def)

lemma onFile_preview:
  "c_preview (onFile url (Some f) c) = (if validateFile (Some f) = [] then url else c_preview c)"
  by (simp add: onFile_def validateFile_def Let_def)

text \<open>
  Claim C3. For a file chosen in the Upload form (\<open>validateFile\<close>, \<open>applyFile\<close>) or on the
  Compare page (\<open>onFile\<close>), an error message is set if and only if the file's MIME
  type is not one of image/jpeg, image/png, image/webp or its size is above
  5 * 1024 * 1024 bytes; a file that passes both checks becomes the selected file and
  the error stays empty.
\<close>

theorem file_validation:
  "(validateFile (Some f) \<noteq> []) =
     (file_type f \<notin> {''image/jpeg'', ''image/png'', ''image/webp''} \<or> 5 * 1024 * 1024 < file_size f) \<and>
   (u_error (applyFile url (Some f) s) \<noteq> []) =
     (file_type f \<notin> {''image/jpeg'', ''image/png'', ''image/webp''} \<or> 5 * 1024 * 1024 < file_size f) \<and>
   (c_error (onFile url (Some f) c) \<noteq> []) =
     (file_type f \<notin> {''image/jpeg'', ''image/png'', ''image/webp''} \<or> 5 * 1024 * 1024 < file_size f) \<and>
   (file_type f \<in> {''image/jpeg'', ''image/png'', ''image/webp''} \<and> file_size f \<le> 5 * 1024 * 1024 \<longrightarrow>
      u_file (applyFile url (Some f) s) = Some f \<and> u_error (applyFile url (Some f) s) = [] \<and>
      c_file (onFile url (Some f) c) = Some f \<and> c_error (onFile url (Some f) c) = [])"
  using validateFile_empty_iff [of f]
  by (auto simp: applyFile_error applyFile_file onFile_error_iff onFile_file)

theorem file_validation_witness:
  "u_file (applyFile ''blob:1'' (Some mango_jpg) upload_init) = Some mango_jpg \<and>
   u_error (applyFile ''blob:1'' (Some mango_jpg) upload_init) = [] \<and>
   c_file (onFile ''blob:1'' (Some mango_jpg) compare_init) = Some mango_jpg \<and>
   c_error (onFile ''blob:1'' (Some mango_jpg) compare_init) = [] \<and>
   validateFile (Some notes_pdf) \<noteq> [] \<and>
   c_error (onFile ''blob:2'' (Some huge_png) compare_init) \<noteq> []"
  using file_validation [of mango_jpg "''blob:1''" upload_init compare_init]
    file_validation [of notes_pdf "''blob:2''" upload_init compare_init]
    file_validation [of huge_png "''blob:2''" upload_init compare_init]
  by (simp add: mango_jpg_def notes_pdf_def huge_png_def)

lemma applyFile_keeps_valid:
  "u_file (applyFile url fo s) = Some g \<Longrightarrow> validateFile (Some g) = []"
  by (auto simp: applyFile_file split: if_splits)

text \<open>
  Claim C10. When the newly chosen file fails validation, \<open>applyFile\<close> of the Upload
  form sets the selected file to null and empties the preview, so that the file it
  leaves selected is never an invalid one; \<open>onFile\<close> of the Compare page leaves the
  file and the preview it had before as they were.
\<close>

theorem invalid_file_not_kept:
  "(file_type f \<notin> {''image/jpeg'', ''image/png'', ''image/webp''} \<or> 5 * 1024 * 1024 < file_size f \<longrightarrow>
      u_file (applyFile url (Some f) s) = None \<and>
      u_preview (applyFile url (Some f) s) = [] \<and>
      c_file (onFile url (Some f) c) = c_file c \<and>
      c_preview (onFile url (Some f) c) = c_preview c) \<and>
   (u_file (applyFile url fo s) = Some g \<longrightarrow>
      file_type g \<in> {''image/jpeg'', ''image/png'', ''image/webp''} \<and> file_size g \<le> 5 * 1024 * 1024)"
  using validateFile_empty_iff [of f] validateFile_empty_iff [of g]
    applyFile_keeps_valid [of url fo s g]
  by (auto simp: applyFile_file applyFile_preview onFile_file onFile_preview)

theorem invalid_file_not_kept_witness:
  "u_file (applyFile ''blob:2'' (Some notes_pdf) (applyFile ''blob:1'' (Some mango_jpg) upload_init)) = None \<and>
   u_preview (applyFile ''blob:2'' (Some notes_pdf) (applyFile ''blob:1'' (Some mango_jpg) upload_init)) = [] \<and>
   c_file (onFile ''blob:2'' (Some notes_pdf) (onFile ''blob:1'' (Some mango_jpg) compare_init)) = Some mango_jpg \<and>
   c_preview (onFile ''blob:2'' (Some notes_pdf) (onFile ''blob:1'' (Some mango_jpg) compare_init)) = ''blob:1''"
proof -
  let ?s = "applyFile ''blob:1'' (Some mango_jpg) upload_init"
  let ?c = "onFile ''blob:1'' (Some mango_jpg) compare_init"
  have bad: "file_type notes_pdf \<notin> {''image/jpeg'', ''image/png'', ''image/webp''} \<or>
             5 * 1024 * 1024 < file_size notes_pdf"
    by (simp add: notes_pdf_def)
  have ok: "validateFile (Some mango_jpg) = []"
    by (simp add: validateFile_empty_iff mango_jpg_def)
  have before: "c_file ?c = Some mango_jpg" "c_preview ?c = ''blob:1''"
    using ok by (simp_all add: onFile_file onFile_preview)
  have "u_file (applyFile ''blob:2'' (Some notes_pdf) ?s) = None \<and>
        u_preview (applyFile ''blob:2'' (Some notes_pdf) ?s) = [] \<and>
        c_file (onFile ''blob:2'' (Some notes_pdf) ?c) = c_file ?c \<and>
        c_preview (onFile ''blob:2'' (Some notes_pdf) ?c) = c_preview ?c"
    using invalid_file_not_kept [of notes_pdf "''blob:2''" ?s ?c None mango_jpg] bad
    by blast
  with before show ?thesis by simp
qed


section \<open>Properties of the detection route\<close>

text \<open>
  Claim C1. The model chosen among CNN, SVM and Random Forest has the highest
  validation accuracy of the three, and among the models that share that accuracy it
  has the highest confidence on the image.
\<close>

theorem select_model_best:
  "val_acc m \<le> val_acc (select_model val_acc conf) \<and>
   (val_acc m = val_acc (select_model val_acc conf) \<longrightarrow>
      conf m \<le> conf (select_model val_acc conf))"
  by (cases m) (auto simp: select_model_def better_def)

theorem select_model_best_witness:
  "select_model tied_acc (\<lambda>m. p_confidence (mango_preds m)) = SVM \<and>
   tied_acc CNN = tied_acc SVM \<and>
   p_confidence (mango_preds CNN) \<le> p_confidence (mango_preds SVM) \<and>
   tied_acc RandomForest \<le> tied_acc SVM"
proof -
  have s: "select_model tied_acc (\<lambda>m. p_confidence (mango_preds m)) = SVM"
    by (simp add: select_model_def better_def tied_acc_def mango_preds_def)
  have t: "tied_acc CNN = tied_acc SVM" by (simp add: tied_acc_def)
  show ?thesis
    using select_model_best [of tied_acc CNN "\<lambda>m. p_confidence (mango_preds m)"]
      select_model_best [of tied_acc RandomForest "\<lambda>m. p_confidence (mango_preds m)"] s t
    by simp
qed

text \<open>
  Claim C2. The detection operation rejects the image as not a mango if and only if
  the largest of the three confidences is below 50% or their average is below 40%;
  otherwise it answers with the label and the confidence of one of the models.
\<close>

theorem detect_rejects_iff:
  "(detect val_acc preds = NotMango) =
     (Max {p_confidence (preds CNN), p_confidence (preds SVM), p_confidence (preds RandomForest)} < 1 / 2 \<or>
      (p_confidence (preds CNN) + p_confidence (preds SVM) + p_confidence (preds RandomForest)) / 3 < 2 / 5) \<and>
   (detect val_acc preds \<noteq> NotMango \<longrightarrow>
      (\<exists>m. detect val_acc preds = Detected (p_label (preds m)) (p_confidence (preds m)) m))"
  by (auto simp: detect_def validate_mango_image_def Let_def)

theorem detect_rejects_iff_witness:
  "detect tied_acc mango_preds = Detected ''pesticide'' (4 / 5) SVM \<and>
   detect tied_acc cat_preds = NotMango"
proof -
  have s: "select_model tied_acc (\<lambda>m. p_confidence (mango_preds m)) = SVM"
    by (simp add: select_model_def better_def tied_acc_def mango_preds_def)
  have a: "detect tied_acc mango_preds = Detected ''pesticide'' (4 / 5) SVM"
    by (simp add: detect_def validate_mango_image_def Let_def s) (simp add: mango_preds_def)
  have b: "detect tied_acc cat_preds = NotMango"
    using detect_rejects_iff [of tied_acc cat_preds] by (simp add: cat_preds_def)
  from a b show ?thesis by blast
qed

end

